theory Spec2Isabelle
  imports Complex_Main "HOL-Library.AList"
begin

section \<open>The UpperComp control surface: parameter and meter state\<close>

text \<open>
  The repository holds two near-identical copies of \<^verbatim>\<open>UpperCompGUI\<close>:
  \<^verbatim>\<open>src/Uppercomp_WAM/compui.js\<close> and \<^verbatim>\<open>src/unnamed/part_000\<close>. They differ, for the
  logic modelled here, in two literals only: the gesture sensitivity of
  \<^verbatim>\<open>adjustKnobValue\<close> (0.3 against 1.0) and the smoothing multiplier of \<^verbatim>\<open>animate\<close>
  (0.2 against 0.5). The model is written once and takes the copy as a parameter.

  JavaScript numbers are modelled as \<^typ>\<open>real\<close>: arithmetic is exact. The one division by
  zero the logic can make, in a meter of a single dot, is written out where it occurs, with
  the NaN it leads to. Everything the class writes to the DOM only (knob rotation, label text, the
  canvas, the box shadow of a dot) is left out; the fields of \<^verbatim>\<open>this\<close> that the logic reads
  and writes are the record \<open>gui\<close>, and the calls of
  \<^verbatim>\<open>patchConnection.sendEventOrValue(param, value)\<close> made for knobs are appended to its
  field \<open>sent\<close>.
\<close>

datatype copy = WAM | Unnamed

definition sensitivity :: "copy \<Rightarrow> real" where
  \<comment> \<open>\<^verbatim>\<open>const sensitivity = 0.3;\<close> (compui.js) and \<^verbatim>\<open>const sensitivity = 1.0;\<close> (part_000)\<close>
  "sensitivity c = (case c of WAM \<Rightarrow> 0.3 | Unnamed \<Rightarrow> 1.0)"

definition smoothing :: "copy \<Rightarrow> real" where
  \<comment> \<open>\<^verbatim>\<open>knob.currentValue += diff * 0.2;\<close> (compui.js) and \<^verbatim>\<open>diff * 0.5\<close> (part_000)\<close>
  "smoothing c = (case c of WAM \<Rightarrow> 0.2 | Unnamed \<Rightarrow> 0.5)"

subsection \<open>Colours and easing\<close>

type_synonym color = "real \<times> real \<times> real"

definition offColor :: color where "offColor = (51, 51, 51)"
definition greenColor :: color where "greenColor = (76, 175, 80)"
definition yellowColor :: color where "yellowColor = (255, 235, 59)"
definition redColor :: color where "redColor = (255, 82, 82)"

definition cubicEase :: "real \<Rightarrow> real" where
  "cubicEase t = (if t < 0.5 then 4 * t * t * t else 1 - (-2 * t + 2) ^ 3 / 2)"

definition js_round :: "real \<Rightarrow> int" where
  \<comment> \<open>\<^verbatim>\<open>Math.round\<close>: the nearest integer, a tie going up\<close>
  "js_round x = \<lfloor>x + 1 / 2\<rfloor>"

fun digitsOf :: "nat \<Rightarrow> string" where
  "digitsOf n = (if n < 10 then [''0123456789'' ! n]
                 else digitsOf (n div 10) @ [''0123456789'' ! (n mod 10)])"

declare digitsOf.simps [simp del]

definition numString :: "int \<Rightarrow> string" where
  \<comment> \<open>an integer inside a template literal, in decimal (as JavaScript prints it below \<open>10\<^sup>2\<^sup>1\<close>)\<close>
  "numString i = (if i < 0 then CHR ''-'' # digitsOf (nat (- i)) else digitsOf (nat i))"

definition lerpColor :: "color \<Rightarrow> color \<Rightarrow> real \<Rightarrow> string" where
  "lerpColor offC onC t =
    (case (offC, onC) of ((off0, off1, off2), (on0, on1, on2)) \<Rightarrow>
      let eased = cubicEase t;
          r = js_round (off0 + (on0 - off0) * eased);
          g = js_round (off1 + (on1 - off1) * eased);
          b = js_round (off2 + (on2 - off2) * eased)
      in ''rgb('' @ numString r @ '', '' @ numString g @ '', '' @ numString b @ '')'')"

subsection \<open>State\<close>

record meter =
  mvalue :: real
  peak :: real

record meters =
  gainReduction :: meter
  inputLevel :: meter
  outputLevel :: meter

record knob =
  currentValue :: real
  targetValue :: real
  kmin :: real
  kmax :: real
  isDragging :: bool
  lastY :: real

record historySample =
  sampleInputLevel :: real
  sampleGainReduction :: real
  sampleOutputLevel :: real

record gui =
  meters :: meters
  decayRate :: real
  waveformHistory :: "historySample list"
  historyLength :: nat
  historyUpdateRate :: nat
  frameCount :: nat
  currentThresholdDb :: real
  knobs :: "(string \<times> knob) list"
  sent :: "(string \<times> real) list"
  prototypeEcho :: "real option"

definition newGui :: gui where
  \<comment> \<open>the constructor; \<^verbatim>\<open>this.knobs\<close> is filled by \<^verbatim>\<open>initializeKnobs\<close>, and nothing has
      been written on \<^verbatim>\<open>Object.prototype\<close> yet\<close>
  "newGui =
    \<lparr> meters = \<lparr> gainReduction = \<lparr> mvalue = 0, peak = 0 \<rparr>,
                 inputLevel = \<lparr> mvalue = -36, peak = -36 \<rparr>,
                 outputLevel = \<lparr> mvalue = -36, peak = -36 \<rparr> \<rparr>,
      decayRate = 0.5,
      waveformHistory = [],
      historyLength = 30,
      historyUpdateRate = 1,
      frameCount = 0,
      currentThresholdDb = -28.0,
      knobs = [],
      sent = [],
      prototypeEcho = None \<rparr>"

subsection \<open>Knobs\<close>

text \<open>
  \<^verbatim>\<open>initializeKnobs\<close> reads one descriptor per \<^verbatim>\<open>.knob\<close> element: the attributes
  \<^verbatim>\<open>data-param\<close>, \<^verbatim>\<open>data-min\<close>, \<^verbatim>\<open>data-max\<close> and \<^verbatim>\<open>data-value\<close>, the last three through
  \<^verbatim>\<open>parseFloat\<close>. The descriptors are taken here as already parsed.
\<close>

type_synonym knobDescriptor = "string \<times> real \<times> real \<times> real"

definition initKnob :: "knobDescriptor \<Rightarrow> gui \<Rightarrow> gui" where
  "initKnob d st =
    (case d of (param, minVal, maxVal, initVal) \<Rightarrow>
      st\<lparr> knobs := AList.update param
            \<lparr> currentValue = initVal, targetValue = initVal, kmin = minVal, kmax = maxVal,
              isDragging = False, lastY = 0 \<rparr> (knobs st) \<rparr>)"

definition initializeKnobs :: "knobDescriptor list \<Rightarrow> gui \<Rightarrow> gui" where
  "initializeKnobs els st = fold initKnob els (st\<lparr> knobs := [] \<rparr>)"

definition knobEls :: "knobDescriptor list" where
  \<comment> \<open>the \<^verbatim>\<open>.knob\<close> elements of \<^verbatim>\<open>getHTML\<close> in part_000, in document order\<close>
  "knobEls =
    [ (''drive'', 0.1, 10, 1.0),
      (''satMixIn'', 0, 1, 1.0),
      (''inputGainIn'', -25, 25, 0.0),
      (''ratioIn'', 1, 10, 4.0),
      (''thresholdDbIn'', -60, 0, -28.0),
      (''lookaheadMsIn'', 0, 50, 5.0),
      (''attackMsIn'', 1, 100, 25.0),
      (''releaseMsIn'', 10, 500, 80.0),
      (''outputGainIn'', -25, 25, 0.0),
      (''sidechainFreqIn'', 20, 20000, 200.0),
      (''compMixIn'', 0, 1, 1.0) ]"

text \<open>
  \<^verbatim>\<open>this.knobs\<close> is a plain object, so \<^verbatim>\<open>this.knobs[endpointID]\<close> finds the knob of that name
  and, when there is none, the member of that name that every object inherits from
  \<^verbatim>\<open>Object.prototype\<close>. The inherited functions and \<^verbatim>\<open>__proto__\<close> are truthy, so the check
  \<^verbatim>\<open>if (!knobObj) return;\<close> lets them pass: the listener writes \<^verbatim>\<open>targetValue\<close> and
  \<^verbatim>\<open>currentValue\<close> on the inherited object and \<^verbatim>\<open>updateKnobRotation\<close> then throws a
  TypeError, reading \<^verbatim>\<open>knob.element.style\<close> of it. The knobs are untouched by this. An echo
  named \<^verbatim>\<open>__proto__\<close> writes the two fields on \<^verbatim>\<open>Object.prototype\<close> itself, where a later echo
  named \<^verbatim>\<open>targetValue\<close> or \<^verbatim>\<open>currentValue\<close> finds that number: 0 is falsy and the listener
  returns; another number is truthy, and assigning a property of a number throws a
  TypeError in the strict code of a class body. The field \<open>prototypeEcho\<close> holds the number
  written there. A call that throws keeps the state it had reached.

  The names of the knobs come from the markup; none of them is \<^verbatim>\<open>__proto__\<close>, a name that
  an assignment would not store as a knob, and the model takes all of them as ordinary keys.
\<close>

datatype error = TypeError

datatype 'a outcome = Returns 'a | Throws error 'a

fun stateOf :: "'a outcome \<Rightarrow> 'a" where
  "stateOf (Returns s) = s"
| "stateOf (Throws e s) = s"

definition objectPrototypeKeys :: "string list" where
  \<comment> \<open>the own property names of \<^verbatim>\<open>Object.prototype\<close>\<close>
  "objectPrototypeKeys =
    [ ''constructor'', ''__defineGetter__'', ''__defineSetter__'', ''hasOwnProperty'',
      ''__lookupGetter__'', ''__lookupSetter__'', ''isPrototypeOf'', ''propertyIsEnumerable'',
      ''toString'', ''valueOf'', ''__proto__'', ''toLocaleString'' ]"

definition paramListener :: "string \<Rightarrow> real \<Rightarrow> gui \<Rightarrow> gui outcome" where
  \<comment> \<open>the host echo of a parameter\<close>
  "paramListener endpointID v st =
    (case map_of (knobs st) endpointID of
      Some knobObj \<Rightarrow>
        let st1 = st\<lparr> knobs := AList.update endpointID
                     (knobObj\<lparr> targetValue := v, currentValue := v \<rparr>) (knobs st) \<rparr>
        in Returns (if endpointID = ''thresholdDbIn''
                    then st1\<lparr> currentThresholdDb := v \<rparr> else st1)
    | None \<Rightarrow>
        if endpointID = ''__proto__'' then Throws TypeError (st\<lparr> prototypeEcho := Some v \<rparr>)
        else if endpointID \<in> set objectPrototypeKeys then Throws TypeError st
        else if endpointID = ''targetValue'' \<or> endpointID = ''currentValue'' then
          (case prototypeEcho st of
            None \<Rightarrow> Returns st
          | Some w \<Rightarrow> if w \<noteq> 0 then Throws TypeError st else Returns st)
        else Returns st)"


definition adjustKnobValue :: "copy \<Rightarrow> string \<Rightarrow> real \<Rightarrow> gui \<Rightarrow> error + gui" where
  \<comment> \<open>the callers, \<^verbatim>\<open>handleKnobDrag\<close> and \<^verbatim>\<open>handleKnobTouch\<close>, pass the names that
      \<^verbatim>\<open>Object.keys(this.knobs)\<close> lists; reading \<^verbatim>\<open>knob.max\<close> of a missing knob throws\<close>
  "adjustKnobValue c param deltaY st =
    (case map_of (knobs st) param of
      None \<Rightarrow> Inl TypeError
    | Some knob \<Rightarrow>
        let range = kmax knob - kmin knob;
            change = (deltaY * sensitivity c * range) / 100
        in Inr (st\<lparr> knobs := AList.update param
                  (knob\<lparr> targetValue :=
                      max (kmin knob) (min (kmax knob) (targetValue knob - change)) \<rparr>)
                  (knobs st) \<rparr>))"

subsection \<open>Meter listeners\<close>

definition gainReductionListener :: "real \<Rightarrow> gui \<Rightarrow> gui" where
  "gainReductionListener v st =
    st\<lparr> meters := (meters st)\<lparr> gainReduction := (gainReduction (meters st))\<lparr> mvalue := v \<rparr> \<rparr> \<rparr>"

definition inputMeterListener :: "real \<Rightarrow> gui \<Rightarrow> gui" where
  "inputMeterListener v st =
    st\<lparr> meters := (meters st)\<lparr> inputLevel := (inputLevel (meters st))\<lparr> mvalue := v \<rparr> \<rparr> \<rparr>"

definition outputMeterListener :: "real \<Rightarrow> gui \<Rightarrow> gui" where
  "outputMeterListener v st =
    st\<lparr> meters := (meters st)\<lparr> outputLevel := (outputLevel (meters st))\<lparr> mvalue := v \<rparr> \<rparr> \<rparr>"

subsection \<open>The animation frame\<close>

text \<open>
  \<^verbatim>\<open>animate\<close> runs five numbered steps on the state, then redraws and requests the next
  frame. Each step is a function of its own here, in the order of the source.
\<close>

definition silenceFloor :: "gui \<Rightarrow> gui" where
  \<comment> \<open>1) if input is very low, force gain reduction to zero\<close>
  "silenceFloor st =
    (if mvalue (inputLevel (meters st)) < -50
     then st\<lparr> meters := (meters st)\<lparr> gainReduction := \<lparr> mvalue = 0, peak = 0 \<rparr> \<rparr> \<rparr>
     else st)"

definition decayPeaks :: "gui \<Rightarrow> gui" where
  \<comment> \<open>2) decay peaks for input and output\<close>
  "decayPeaks st =
    (let m = meters st;
         i = inputLevel m;
         m1 = m\<lparr> inputLevel := i\<lparr> peak := max (mvalue i) (peak i - decayRate st) \<rparr> \<rparr>;
         out = outputLevel m1;
         m2 = m1\<lparr> outputLevel := out\<lparr> peak := max (mvalue out) (peak out - decayRate st) \<rparr> \<rparr>
     in st\<lparr> meters := m2 \<rparr>)"

definition grDeadZone :: "gui \<Rightarrow> gui" where
  \<comment> \<open>3) if the gain reduction is near zero, force it to 0; otherwise let it track the value\<close>
  "grDeadZone st =
    (let gr = gainReduction (meters st) in
     if \<bar>mvalue gr\<bar> < 0.05
     then st\<lparr> meters := (meters st)\<lparr> gainReduction := \<lparr> mvalue = 0, peak = 0 \<rparr> \<rparr> \<rparr>
     else st\<lparr> meters := (meters st)\<lparr> gainReduction := gr\<lparr> peak := mvalue gr \<rparr> \<rparr> \<rparr>)"

definition smoothKnob :: "copy \<Rightarrow> string \<Rightarrow> gui \<Rightarrow> gui" where
  \<comment> \<open>4) the body of the \<^verbatim>\<open>forEach\<close> over \<^verbatim>\<open>Object.keys(this.knobs)\<close>\<close>
  "smoothKnob c param st =
    (case map_of (knobs st) param of
      None \<Rightarrow> st
    | Some knob \<Rightarrow>
        let diff = targetValue knob - currentValue knob in
        if \<bar>diff\<bar> > 0.0001 then
          let cv = currentValue knob + diff * smoothing c;
              st1 = st\<lparr> knobs := AList.update param (knob\<lparr> currentValue := cv \<rparr>) (knobs st),
                        sent := sent st @ [(param, cv)] \<rparr>
          in if param = ''thresholdDbIn'' then st1\<lparr> currentThresholdDb := cv \<rparr> else st1
        else st)"

definition smoothKnobs :: "copy \<Rightarrow> gui \<Rightarrow> gui" where
  "smoothKnobs c st = fold (smoothKnob c) (map fst (knobs st)) st"

definition historyPush :: "nat \<Rightarrow> 'a \<Rightarrow> 'a list \<Rightarrow> 'a list" where
  \<comment> \<open>\<^verbatim>\<open>push\<close>, then \<^verbatim>\<open>shift\<close> when the length exceeds the capacity\<close>
  "historyPush n s h = (let h1 = h @ [s] in if length h1 > n then tl h1 else h1)"

definition currentSample :: "gui \<Rightarrow> historySample" where
  "currentSample st =
    \<lparr> sampleInputLevel = mvalue (inputLevel (meters st)),
      sampleGainReduction = mvalue (gainReduction (meters st)),
      sampleOutputLevel = mvalue (outputLevel (meters st)) \<rparr>"

definition pushHistory :: "gui \<Rightarrow> gui" where
  \<comment> \<open>5) waveform history\<close>
  "pushHistory st =
    (let fc = frameCount st + 1 in
     if fc \<ge> historyUpdateRate st
     then st\<lparr> frameCount := 0,
              waveformHistory :=
                historyPush (historyLength st) (currentSample st) (waveformHistory st) \<rparr>
     else st\<lparr> frameCount := fc \<rparr>)"

definition animate :: "copy \<Rightarrow> gui \<Rightarrow> gui" where
  "animate c st = pushHistory (smoothKnobs c (grDeadZone (decayPeaks (silenceFloor st))))"

subsection \<open>Meter dots\<close>

text \<open>
  \<^verbatim>\<open>updateMeters\<close> paints the dots of each meter from its peak. The number of dots of a
  meter, \<^verbatim>\<open>dots.length\<close>, is a parameter (\<^verbatim>\<open>getHTML\<close> makes 24 for each). The three meter
  elements are taken to exist; the numeric readout is text only and is left out.

  With a single dot the source divides by zero: \<^verbatim>\<open>dbStep\<close> is infinite (or NaN, for an empty
  range) and \<^verbatim>\<open>dotDb\<close>, the range's start plus or minus \<^verbatim>\<open>0 * dbStep\<close>, is NaN. Every
  comparison with \<^verbatim>\<open>dotDb\<close> is then false and the intensity is NaN, unless the branch for
  gain reduction has returned 0.0 before \<^verbatim>\<open>dotDb\<close> is looked at; \<^verbatim>\<open>Math.max(0, Math.min(1, NaN))\<close>
  is NaN; the colour picked is \<^verbatim>\<open>redColor\<close>, both tests on \<^verbatim>\<open>dotDb\<close> being false; \<^verbatim>\<open>lerpColor\<close>
  prints \<^verbatim>\<open>rgb(NaN, NaN, NaN)\<close>, and \<^verbatim>\<open>NaN > 0\<close> is false. \<open>singleDot\<close> is that dot.
\<close>

record meterCfg =
  minDb :: real
  maxDb :: real
  ascending :: bool

definition meterMap :: "(string \<times> meterCfg) list" where
  "meterMap =
    [ (''inputLevel'', \<lparr> minDb = -36, maxDb = 6, ascending = True \<rparr>),
      (''gainReduction'', \<lparr> minDb = 0, maxDb = -36, ascending = False \<rparr>),
      (''outputLevel'', \<lparr> minDb = -36, maxDb = 6, ascending = True \<rparr>) ]"

definition meterNamed :: "gui \<Rightarrow> string \<Rightarrow> meter" where
  \<comment> \<open>\<^verbatim>\<open>this.meters[param]\<close>, for the three keys of \<^verbatim>\<open>meterMap\<close>\<close>
  "meterNamed st param =
    (if param = ''inputLevel'' then inputLevel (meters st)
     else if param = ''gainReduction'' then gainReduction (meters st)
     else outputLevel (meters st))"

definition readoutValue :: "string \<Rightarrow> real \<Rightarrow> real" where
  \<comment> \<open>\<^verbatim>\<open>meterValue\<close>: a gain reduction near zero is displayed as 0.0\<close>
  "readoutValue param pk = (if param = ''gainReduction'' \<and> \<bar>pk\<bar> < 0.05 then 0.0 else pk)"

definition ledIntensity :: "meterCfg \<Rightarrow> real \<Rightarrow> real \<Rightarrow> real \<Rightarrow> real" where
  \<comment> \<open>\<^verbatim>\<open>intensity\<close> as the branches assign it, before it is clamped\<close>
  "ledIntensity cfg meterValue dotDb dbStep =
    (if ascending cfg then
       (if meterValue \<ge> dotDb then 1.0
        else if meterValue < dotDb - dbStep then 0.0
        else (meterValue - (dotDb - dbStep)) / dbStep)
     else
       (let clampVal = min 0 meterValue in
        if clampVal \<ge> -0.01 then 0.0
        else if clampVal \<le> dotDb then 1.0
        else if clampVal > dotDb + dbStep then 0.0
        else (dotDb + dbStep - clampVal) / dbStep))"

definition activeColor :: "string \<Rightarrow> real \<Rightarrow> color" where
  "activeColor param dotDb =
    (if param = ''gainReduction'' then redColor
     else if dotDb < -12 then greenColor else if dotDb < 0 then yellowColor else redColor)"

record led =
  background :: string
  active :: bool

definition paintDot :: "string \<Rightarrow> real \<Rightarrow> real \<Rightarrow> led" where
  \<comment> \<open>the rest of the loop body: clamp the intensity, pick the colour, interpolate\<close>
  "paintDot param dotDb intensity0 =
    (let intensity = max 0 (min 1 intensity0)
     in \<lparr> background = lerpColor offColor (activeColor param dotDb) intensity,
          active = (intensity > 0) \<rparr>)"

definition dotDbOf :: "meterCfg \<Rightarrow> real \<Rightarrow> nat \<Rightarrow> real" where
  "dotDbOf cfg dbStep i =
    (if ascending cfg then minDb cfg + real i * dbStep else minDb cfg - real i * dbStep)"

definition singleDot :: "meterCfg \<Rightarrow> real \<Rightarrow> led" where
  "singleDot cfg meterValue =
    (if \<not> ascending cfg \<and> min 0 meterValue \<ge> -0.01
     then \<lparr> background = lerpColor offColor redColor 0, active = False \<rparr>
     else \<lparr> background = ''rgb(NaN, NaN, NaN)'', active = False \<rparr>)"

definition meterDots :: "string \<Rightarrow> meterCfg \<Rightarrow> real \<Rightarrow> nat \<Rightarrow> led list" where
  "meterDots param cfg pk totalDots =
    (let meterValue = readoutValue param pk;
         rng = \<bar>maxDb cfg - minDb cfg\<bar>
     in if totalDots = 1 then [singleDot cfg meterValue]
        else
          let dbStep = rng / (real totalDots - 1)
          in map (\<lambda>i. paintDot param (dotDbOf cfg dbStep i)
                        (ledIntensity cfg meterValue (dotDbOf cfg dbStep i) dbStep))
                 [0..<totalDots])"

definition updateMeters :: "(string \<Rightarrow> nat) \<Rightarrow> gui \<Rightarrow> (string \<times> led list) list" where
  "updateMeters dots st =
    map (\<lambda>(param, cfg). (param, meterDots param cfg (peak (meterNamed st param)) (dots param)))
        meterMap"

subsection \<open>The range invariant of a knob\<close>

definition inRange :: "knob \<Rightarrow> bool" where
  "inRange k \<longleftrightarrow>
     kmin k \<le> currentValue k \<and> currentValue k \<le> kmax k \<and>
     kmin k \<le> targetValue k \<and> targetValue k \<le> kmax k"

definition knobsInRange :: "gui \<Rightarrow> bool" where
  "knobsInRange st = list_all (\<lambda>(p, k). inRange k) (knobs st)"

definition descriptorInRange :: "knobDescriptor \<Rightarrow> bool" where
  "descriptorInRange d =
    (case d of (param, minVal, maxVal, initVal) \<Rightarrow> minVal \<le> initVal \<and> initVal \<le> maxVal)"

section \<open>Frame lemmas\<close>

lemma meters_smoothKnob [simp]: "meters (smoothKnob c p st) = meters st"
  by (simp add: smoothKnob_def Let_def split: option.splits)

lemma meters_fold_smoothKnob [simp]: "meters (fold (smoothKnob c) ps st) = meters st"
  by (induction ps arbitrary: st) simp_all

lemma meters_smoothKnobs [simp]: "meters (smoothKnobs c st) = meters st"
  by (simp add: smoothKnobs_def)

lemma meters_pushHistory [simp]: "meters (pushHistory st) = meters st"
  by (simp add: pushHistory_def Let_def)

lemma meters_animate:
  "meters (animate c st) = meters (grDeadZone (decayPeaks (silenceFloor st)))"
  by (simp add: animate_def)

lemma knobs_before_smoothing [simp]:
  "knobs (grDeadZone st) = knobs st" "knobs (decayPeaks st) = knobs st"
  "knobs (silenceFloor st) = knobs st"
  by (simp_all add: grDeadZone_def decayPeaks_def silenceFloor_def Let_def)

lemma knobs_pushHistory [simp]: "knobs (pushHistory st) = knobs st"
  by (simp add: pushHistory_def Let_def)

lemma knobs_smoothKnob:
  "knobs (smoothKnob c p st) =
    (case map_of (knobs st) p of
      None \<Rightarrow> knobs st
    | Some k \<Rightarrow>
        if \<bar>targetValue k - currentValue k\<bar> > 0.0001
        then AList.update p
          (k\<lparr> currentValue := currentValue k + (targetValue k - currentValue k) * smoothing c \<rparr>)
          (knobs st)
        else knobs st)"
  by (simp add: smoothKnob_def Let_def split: option.splits)

lemma knobs_initial:
  "knobs (initializeKnobs knobEls newGui) =
    map (\<lambda>(param, minVal, maxVal, initVal).
          (param, \<lparr> currentValue = initVal, targetValue = initVal, kmin = minVal, kmax = maxVal,
              isDragging = False, lastY = 0 \<rparr>)) knobEls"
  by (simp add: initializeKnobs_def knobEls_def initKnob_def newGui_def)

lemma history_fields_smoothKnob [simp]:
  "waveformHistory (smoothKnob c p st) = waveformHistory st"
  "historyLength (smoothKnob c p st) = historyLength st"
  "historyUpdateRate (smoothKnob c p st) = historyUpdateRate st"
  "frameCount (smoothKnob c p st) = frameCount st"
  by (simp_all add: smoothKnob_def Let_def split: option.splits)

lemma history_fields_fold_smoothKnob [simp]:
  "waveformHistory (fold (smoothKnob c) ps st) = waveformHistory st"
  "historyLength (fold (smoothKnob c) ps st) = historyLength st"
  "historyUpdateRate (fold (smoothKnob c) ps st) = historyUpdateRate st"
  "frameCount (fold (smoothKnob c) ps st) = frameCount st"
  by (induction ps arbitrary: st) simp_all

lemma history_fields_before_smoothing [simp]:
  "waveformHistory (grDeadZone (decayPeaks (silenceFloor st))) = waveformHistory st"
  "historyLength (grDeadZone (decayPeaks (silenceFloor st))) = historyLength st"
  "historyUpdateRate (grDeadZone (decayPeaks (silenceFloor st))) = historyUpdateRate st"
  "frameCount (grDeadZone (decayPeaks (silenceFloor st))) = frameCount st"
  by (simp_all add: grDeadZone_def decayPeaks_def silenceFloor_def Let_def)

lemma keys_smoothKnob [simp]: "map fst (knobs (smoothKnob c p st)) = map fst (knobs st)"
proof (cases "map_of (knobs st) p")
  case None
  then show ?thesis by (simp add: knobs_smoothKnob)
next
  case (Some k)
  then have "(p, k) \<in> set (knobs st)" by (rule map_of_SomeD)
  then have "p \<in> fst ` set (knobs st)" by force
  then show ?thesis using Some by (simp add: knobs_smoothKnob update_keys)
qed

lemma keys_fold_smoothKnob [simp]:
  "map fst (knobs (fold (smoothKnob c) ps st)) = map fst (knobs st)"
  by (induction ps arbitrary: st) simp_all

lemma keys_animate: "map fst (knobs (animate c st)) = map fst (knobs st)"
  by (simp add: animate_def smoothKnobs_def)

lemma distinct_keys_fold_initKnob:
  "distinct (map fst (knobs st)) \<Longrightarrow> distinct (map fst (knobs (fold initKnob els st)))"
proof (induction els arbitrary: st)
  case Nil
  then show ?case by simp
next
  case (Cons d els)
  obtain param lo hi v where d: "d = (param, lo, hi, v)" by (cases d) auto
  have "distinct (map fst (knobs (initKnob d st)))"
    using Cons.prems by (simp add: d initKnob_def distinct_update)
  then show ?case using Cons.IH by simp
qed

lemma distinct_keys_initializeKnobs: "distinct (map fst (knobs (initializeKnobs els st)))"
  unfolding initializeKnobs_def by (rule distinct_keys_fold_initKnob) simp

section \<open>Easing and colour\<close>

lemma cube_mono: "(s::real) \<le> t \<Longrightarrow> s ^ 3 \<le> t ^ 3"
  by (rule power_mono_odd) simp_all

lemma cubicEase_low: "t < 1 / 2 \<Longrightarrow> cubicEase t = 4 * t ^ 3"
  by (simp add: cubicEase_def power3_eq_cube)

lemma cubicEase_high: "\<not> t < 1 / 2 \<Longrightarrow> cubicEase t = 1 - (2 - 2 * t) ^ 3 / 2"
  by (simp add: cubicEase_def)

lemma cubicEase_mono:
  assumes st: "s \<le> t"
  shows "cubicEase s \<le> cubicEase t"
proof -
  consider (low) "t < 1 / 2" | (mid) "s < 1 / 2" "\<not> t < 1 / 2" | (high) "\<not> s < 1 / 2"
    by linarith
  then show ?thesis
  proof cases
    case low
    with st have "s < 1 / 2" by simp
    with low st show ?thesis
      using cube_mono [of s t] by (simp add: cubicEase_low)
  next
    case mid
    have a: "s ^ 3 \<le> (1 / 2) ^ 3" using mid(1) cube_mono [of s "1 / 2"] by simp
    have b: "(2 - 2 * t) ^ 3 \<le> 1 ^ 3" using mid(2) cube_mono [of "2 - 2 * t" 1] by simp
    have "cubicEase s \<le> 1 / 2" using a mid(1) by (simp add: cubicEase_low power_divide)
    moreover have "1 / 2 \<le> cubicEase t" using b mid(2) by (simp add: cubicEase_high)
    ultimately show ?thesis by linarith
  next
    case high
    with st have ht: "\<not> t < 1 / 2" by simp
    have "(2 - 2 * t) ^ 3 \<le> (2 - 2 * s) ^ 3" using st by (intro cube_mono) simp
    with high ht show ?thesis by (simp add: cubicEase_high)
  qed
qed

text \<open>
  Claim C6. \<^verbatim>\<open>cubicEase\<close> is \<open>4t\<^sup>3\<close> below one half and \<open>1 - (-2t + 2)\<^sup>3 / 2\<close> from one half
  on; it takes 0 to 0, one half to one half and 1 to 1, and it never decreases on the unit
  interval.
\<close>

theorem cubicEase_endpoints_monotone:
  "(\<forall>t. cubicEase t = (if t < 0.5 then 4 * t ^ 3 else 1 - (-2 * t + 2) ^ 3 / 2)) \<and>
   cubicEase 0 = 0 \<and> cubicEase 0.5 = 0.5 \<and> cubicEase 1 = 1 \<and>
   (\<forall>s t. 0 \<le> s \<and> s \<le> t \<and> t \<le> 1 \<longrightarrow> cubicEase s \<le> cubicEase t)"
  using cubicEase_mono by (simp add: cubicEase_def power3_eq_cube)

theorem cubicEase_endpoints_monotone_witness:
  "(0::real) \<le> 1 / 4 \<and> (1 / 4 :: real) \<le> 3 / 4 \<and> (3 / 4 :: real) \<le> 1 \<and>
   cubicEase (1 / 4) \<le> cubicEase (3 / 4) \<and>
   cubicEase (1 / 4) = 1 / 16 \<and> cubicEase (3 / 4) = 15 / 16"
proof -
  have m: "\<forall>s t. 0 \<le> s \<and> s \<le> t \<and> t \<le> 1 \<longrightarrow> cubicEase s \<le> cubicEase t"
    using cubicEase_endpoints_monotone by blast
  have "(0::real) \<le> 1 / 4 \<and> (1 / 4 :: real) \<le> 3 / 4 \<and> (3 / 4 :: real) \<le> 1" by simp
  then have "cubicEase (1 / 4) \<le> cubicEase (3 / 4)"
    using m by blast
  moreover have "cubicEase (1 / 4) = 1 / 16" "cubicEase (3 / 4) = 15 / 16"
    by (simp_all add: cubicEase_def power3_eq_cube)
  ultimately show ?thesis by simp
qed

section \<open>Meters on a tick\<close>

text \<open>
  Claim C7. On every tick the new peak of the input meter and of the output meter is the
  larger of the meter's raw value and its old peak less the decay rate.
\<close>

theorem level_peak_hold_decay:
  "peak (inputLevel (meters (animate c st))) =
     max (mvalue (inputLevel (meters st))) (peak (inputLevel (meters st)) - decayRate st) \<and>
   peak (outputLevel (meters (animate c st))) =
     max (mvalue (outputLevel (meters st))) (peak (outputLevel (meters st)) - decayRate st)"
  by (simp add: meters_animate grDeadZone_def decayPeaks_def silenceFloor_def Let_def)

theorem level_peak_hold_decay_witness:
  "peak (inputLevel (meters (animate WAM (inputMeterListener (-20) newGui)))) = -20 \<and>
   peak (inputLevel (meters (animate WAM (inputMeterListener (-40)
      (animate WAM (inputMeterListener (-20) newGui)))))) = -20.5 \<and>
   peak (outputLevel (meters (animate WAM (inputMeterListener (-20) newGui)))) = -36"
proof -
  let ?s1 = "inputMeterListener (-20) newGui"
  let ?s2 = "inputMeterListener (-40) (animate WAM ?s1)"
  have p1: "peak (inputLevel (meters (animate WAM ?s1))) = -20"
    using level_peak_hold_decay [of WAM ?s1] by (simp add: inputMeterListener_def newGui_def)
  have d: "decayRate (animate WAM ?s1) = 0.5"
    by (simp add: animate_def pushHistory_def smoothKnobs_def grDeadZone_def decayPeaks_def
        silenceFloor_def inputMeterListener_def newGui_def Let_def)
  have "peak (inputLevel (meters (animate WAM ?s2))) = -20.5"
    using level_peak_hold_decay [of WAM ?s2] p1 d by (simp add: inputMeterListener_def)
  moreover have "peak (outputLevel (meters (animate WAM ?s1))) = -36"
    using level_peak_hold_decay [of WAM ?s1] by (simp add: inputMeterListener_def newGui_def)
  ultimately show ?thesis using p1 by simp
qed

text \<open>
  Claim C4. On every tick the gain-reduction meter ends with value and peak 0 when the raw
  value of the input meter is below -50; it also ends with value and peak 0 when the
  absolute value of its own raw value is below 0.05, so a sample of 0.03 followed by a tick
  gives the peak 0; in every other case its peak is its raw value, with no decay.
\<close>

theorem gain_reduction_tick:
  "(mvalue (inputLevel (meters st)) < -50 \<longrightarrow>
      mvalue (gainReduction (meters (animate c st))) = 0 \<and>
      peak (gainReduction (meters (animate c st))) = 0) \<and>
   (\<bar>mvalue (gainReduction (meters st))\<bar> < 0.05 \<longrightarrow>
      mvalue (gainReduction (meters (animate c st))) = 0 \<and>
      peak (gainReduction (meters (animate c st))) = 0) \<and>
   (\<not> mvalue (inputLevel (meters st)) < -50 \<and> \<not> \<bar>mvalue (gainReduction (meters st))\<bar> < 0.05 \<longrightarrow>
      mvalue (gainReduction (meters (animate c st))) = mvalue (gainReduction (meters st)) \<and>
      peak (gainReduction (meters (animate c st))) = mvalue (gainReduction (meters st))) \<and>
   peak (gainReduction (meters (animate c (gainReductionListener 0.03 st)))) = 0"
  by (simp add: meters_animate grDeadZone_def decayPeaks_def silenceFloor_def Let_def
      gainReductionListener_def)

theorem gain_reduction_tick_witness:
  "mvalue (inputLevel (meters (inputMeterListener (-55) (gainReductionListener (-7) newGui)))) < -50 \<and>
   mvalue (gainReduction (meters (inputMeterListener (-55) (gainReductionListener (-7) newGui)))) = -7 \<and>
   peak (gainReduction (meters (animate Unnamed
      (inputMeterListener (-55) (gainReductionListener (-7) newGui))))) = 0 \<and>
   \<bar>mvalue (gainReduction (meters (gainReductionListener (-0.04) newGui)))\<bar> < 0.05 \<and>
   peak (gainReduction (meters (animate Unnamed (gainReductionListener (-0.04) newGui)))) = 0 \<and>
   \<not> mvalue (inputLevel (meters (gainReductionListener (-7) newGui))) < -50 \<and>
   \<not> \<bar>mvalue (gainReduction (meters (gainReductionListener (-7) newGui)))\<bar> < 0.05 \<and>
   peak (gainReduction (meters (animate Unnamed (gainReductionListener (-7) newGui)))) = -7"
proof -
  let ?a = "inputMeterListener (-55) (gainReductionListener (-7) newGui)"
  let ?b = "gainReductionListener (-0.04) newGui"
  let ?c = "gainReductionListener (-7) newGui"
  have a: "mvalue (inputLevel (meters ?a)) = -55" "mvalue (gainReduction (meters ?a)) = -7"
    by (simp_all add: inputMeterListener_def gainReductionListener_def newGui_def)
  have b: "mvalue (gainReduction (meters ?b)) = -0.04"
    by (simp add: gainReductionListener_def newGui_def)
  have c: "mvalue (inputLevel (meters ?c)) = -36" "mvalue (gainReduction (meters ?c)) = -7"
    by (simp_all add: gainReductionListener_def newGui_def)
  have "peak (gainReduction (meters (animate Unnamed ?a))) = 0"
    using gain_reduction_tick [of ?a Unnamed] a by simp
  moreover have "peak (gainReduction (meters (animate Unnamed ?b))) = 0"
    using gain_reduction_tick [of ?b Unnamed] b by simp
  moreover have "peak (gainReduction (meters (animate Unnamed ?c))) = -7"
    using gain_reduction_tick [of ?c Unnamed] c by simp
  ultimately show ?thesis using a b c by simp
qed

section \<open>Knobs: host echo, gesture, range\<close>

lemma list_all_update:
  "list_all P al \<Longrightarrow> P (k, v) \<Longrightarrow> list_all P (AList.update k v al)"
  by (induction al) auto

lemma map_of_list_all:
  "list_all P al \<Longrightarrow> map_of al k = Some v \<Longrightarrow> P (k, v)"
  by (induction al) (auto split: if_splits)

lemma knobsInRange_lookup:
  "knobsInRange st \<Longrightarrow> map_of (knobs st) p = Some k \<Longrightarrow> inRange k"
  using map_of_list_all [of "\<lambda>(p, k). inRange k" "knobs st" p k]
  by (simp add: knobsInRange_def)

lemma smoothing_bounds: "0 \<le> smoothing c \<and> smoothing c \<le> 1"
  by (cases c) (simp_all add: smoothing_def)

lemma convex_step:
  fixes a b f lo hi :: real
  assumes "lo \<le> a" "a \<le> hi" "lo \<le> b" "b \<le> hi" "0 \<le> f" "f \<le> 1"
  shows "lo \<le> a + (b - a) * f \<and> a + (b - a) * f \<le> hi"
proof -
  have e: "a + (b - a) * f = (1 - f) * a + f * b" by (simp add: algebra_simps)
  have "(1 - f) * lo \<le> (1 - f) * a" "f * lo \<le> f * b"
    using assms by (simp_all add: mult_left_mono)
  then have l: "(1 - f) * lo + f * lo \<le> (1 - f) * a + f * b" by linarith
  have "(1 - f) * a \<le> (1 - f) * hi" "f * b \<le> f * hi"
    using assms by (simp_all add: mult_left_mono)
  then have u: "(1 - f) * a + f * b \<le> (1 - f) * hi + f * hi" by linarith
  have "(1 - f) * lo + f * lo = lo" "(1 - f) * hi + f * hi = hi" by (simp_all add: algebra_simps)
  with l u e show ?thesis by simp
qed

lemma inRange_smooth:
  assumes "inRange k"
  shows "inRange (k\<lparr> currentValue :=
            currentValue k + (targetValue k - currentValue k) * smoothing c \<rparr>)"
  using assms convex_step [of "kmin k" "currentValue k" "kmax k" "targetValue k" "smoothing c"]
    smoothing_bounds [of c]
  by (simp add: inRange_def)

lemma knobsInRange_smoothKnob:
  assumes "knobsInRange st"
  shows "knobsInRange (smoothKnob c p st)"
proof (cases "map_of (knobs st) p")
  case None
  then show ?thesis using assms by (simp add: knobsInRange_def knobs_smoothKnob)
next
  case (Some k)
  have "inRange k" using assms Some by (rule knobsInRange_lookup)
  then show ?thesis using assms Some
    by (simp add: knobsInRange_def knobs_smoothKnob list_all_update inRange_smooth)
qed

lemma knobsInRange_fold_smoothKnob:
  "knobsInRange st \<Longrightarrow> knobsInRange (fold (smoothKnob c) ps st)"
  by (induction ps arbitrary: st) (simp_all add: knobsInRange_smoothKnob)

lemma knobsInRange_animate:
  assumes "knobsInRange st"
  shows "knobsInRange (animate c st)"
proof -
  have "knobsInRange (grDeadZone (decayPeaks (silenceFloor st)))"
    using assms by (simp add: knobsInRange_def)
  then have "knobsInRange (smoothKnobs c (grDeadZone (decayPeaks (silenceFloor st))))"
    unfolding smoothKnobs_def by (rule knobsInRange_fold_smoothKnob)
  then show ?thesis by (simp add: animate_def knobsInRange_def)
qed

lemma knobsInRange_adjustKnobValue:
  assumes "knobsInRange st" "adjustKnobValue c p dy st = Inr st'"
  shows "knobsInRange st'"
proof (cases "map_of (knobs st) p")
  case None
  then show ?thesis using assms by (simp add: adjustKnobValue_def)
next
  case (Some k)
  have r: "inRange k" using assms(1) Some by (rule knobsInRange_lookup)
  have "inRange (k\<lparr> targetValue := max (kmin k) (min (kmax k)
          (targetValue k - dy * sensitivity c * (kmax k - kmin k) / 100)) \<rparr>)"
    using r by (simp add: inRange_def)
  then show ?thesis using assms Some
    by (auto simp add: adjustKnobValue_def Let_def knobsInRange_def list_all_update)
qed

lemma knobs_paramListener_absent:
  "map_of (knobs st) p = None \<Longrightarrow> knobs (stateOf (paramListener p v st)) = knobs st"
  by (simp add: paramListener_def split: option.splits)

lemma paramListener_known:
  "map_of (knobs st) p = Some k \<Longrightarrow>
   paramListener p v st =
     Returns (st\<lparr> knobs := AList.update p (k\<lparr> targetValue := v, currentValue := v \<rparr>) (knobs st),
                  currentThresholdDb := (if p = ''thresholdDbIn'' then v else currentThresholdDb st) \<rparr>)"
  by (simp add: paramListener_def Let_def)

lemma paramListener_inherited:
  "map_of (knobs st) p = None \<Longrightarrow> p \<in> set objectPrototypeKeys \<Longrightarrow>
   paramListener p v st =
     Throws TypeError (if p = ''__proto__'' then st\<lparr> prototypeEcho := Some v \<rparr> else st)"
  by (simp add: paramListener_def)

lemma knobsInRange_paramListener:
  assumes "knobsInRange st"
    and "\<And>k. map_of (knobs st) p = Some k \<Longrightarrow> kmin k \<le> v \<and> v \<le> kmax k"
  shows "knobsInRange (stateOf (paramListener p v st))"
proof (cases "map_of (knobs st) p")
  case None
  then have "knobs (stateOf (paramListener p v st)) = knobs st"
    by (rule knobs_paramListener_absent)
  then show ?thesis using assms(1) by (simp add: knobsInRange_def)
next
  case (Some k)
  have "inRange (k\<lparr> targetValue := v, currentValue := v \<rparr>)"
    using assms(2) [OF Some] by (simp add: inRange_def)
  then show ?thesis using assms(1) Some
    by (simp add: paramListener_known knobsInRange_def list_all_update)
qed

lemma knobsInRange_fold_initKnob:
  "list_all descriptorInRange els \<Longrightarrow> knobsInRange st \<Longrightarrow> knobsInRange (fold initKnob els st)"
proof (induction els arbitrary: st)
  case Nil
  then show ?case by simp
next
  case (Cons d els)
  obtain param lo hi v where d: "d = (param, lo, hi, v)" by (cases d) auto
  have "knobsInRange (initKnob d st)"
    using Cons.prems
    by (simp add: d initKnob_def knobsInRange_def descriptorInRange_def list_all_update
        inRange_def)
  then show ?case using Cons by simp
qed

lemma knobsInRange_initializeKnobs:
  "list_all descriptorInRange els \<Longrightarrow> knobsInRange (initializeKnobs els st)"
  unfolding initializeKnobs_def
  by (rule knobsInRange_fold_initKnob) (simp_all add: knobsInRange_def)

lemma knobEls_inRange: "list_all descriptorInRange knobEls"
  by (simp add: knobEls_def descriptorInRange_def)




text \<open>
  An echo named after a member of \<^verbatim>\<open>Object.prototype\<close> throws and leaves every knob as it
  was; an echo of any other unknown name returns at once.
\<close>

lemma host_echo_toString:
  "paramListener ''toString'' v (initializeKnobs knobEls newGui) =
     Throws TypeError (initializeKnobs knobEls newGui)"
proof -
  have "map_of (knobs (initializeKnobs knobEls newGui)) ''toString'' = None"
    unfolding knobs_initial by (simp add: knobEls_def)
  then show ?thesis by (simp add: paramListener_inherited objectPrototypeKeys_def)
qed

text \<open>
  Claim C2, as the code has it. The bounds \<open>min \<le> currentValue \<le> max\<close> and
  \<open>min \<le> targetValue \<le> max\<close> hold for every knob after \<^verbatim>\<open>initializeKnobs\<close> when every
  descriptor's initial value lies within its bounds (the descriptors of the markup do);
  they are kept by every gesture delta, which clamps the new target, and by every tick;
  a host echo keeps them when the echoed value lies within the bounds of its knob, the
  value being stored as it arrives.
\<close>

theorem knob_range_invariant:
  "(list_all descriptorInRange els \<longrightarrow> knobsInRange (initializeKnobs els st0)) \<and>
   knobsInRange (initializeKnobs knobEls newGui) \<and>
   (knobsInRange st \<longrightarrow>
      (\<forall>p dy st'. adjustKnobValue c p dy st = Inr st' \<longrightarrow> knobsInRange st') \<and>
      knobsInRange (animate c st) \<and>
      (\<forall>p v. (\<forall>k. map_of (knobs st) p = Some k \<longrightarrow> kmin k \<le> v \<and> v \<le> kmax k)
          \<longrightarrow> knobsInRange (stateOf (paramListener p v st))))"
  using knobsInRange_initializeKnobs knobsInRange_adjustKnobValue knobsInRange_animate
    knobsInRange_paramListener knobEls_inRange by blast

theorem knob_range_invariant_witness:
  "list_all descriptorInRange knobEls \<and>
   knobsInRange (initializeKnobs knobEls newGui) \<and>
   knobsInRange (animate WAM (initializeKnobs knobEls newGui)) \<and>
   knobsInRange (stateOf (paramListener ''ratioIn'' 2.5 (initializeKnobs knobEls newGui))) \<and>
   (\<exists>st'. adjustKnobValue Unnamed ''satMixIn'' (-50) (initializeKnobs knobEls newGui) = Inr st' \<and>
      knobsInRange st')"
proof -
  let ?st = "initializeKnobs knobEls newGui"
  have e: "list_all descriptorInRange knobEls"
    by (simp add: knobEls_def descriptorInRange_def)
  have i: "knobsInRange ?st"
    using knob_range_invariant [of knobEls newGui ?st WAM] e by blast
  have a: "knobsInRange (animate WAM ?st)"
    using knob_range_invariant [of knobEls newGui ?st WAM] i by blast
  have r: "map_of (knobs ?st) ''ratioIn'' =
      Some \<lparr> currentValue = 4, targetValue = 4, kmin = 1, kmax = 10,
             isDragging = False, lastY = 0 \<rparr>"
    unfolding knobs_initial by (simp add: knobEls_def)
  have "\<forall>k. map_of (knobs ?st) ''ratioIn'' = Some k \<longrightarrow> kmin k \<le> 2.5 \<and> 2.5 \<le> kmax k"
    using r by simp
  then have h: "knobsInRange (stateOf (paramListener ''ratioIn'' 2.5 ?st))"
    using knob_range_invariant [of knobEls newGui ?st WAM] i by blast
  have m: "map_of (knobs ?st) ''satMixIn'' =
      Some \<lparr> currentValue = 1, targetValue = 1, kmin = 0, kmax = 1,
             isDragging = False, lastY = 0 \<rparr>"
    unfolding knobs_initial by (simp add: knobEls_def)
  obtain st' where s: "adjustKnobValue Unnamed ''satMixIn'' (-50) ?st = Inr st'"
    using m by (simp add: adjustKnobValue_def Let_def)
  then have "knobsInRange st'"
    using knob_range_invariant [of knobEls newGui ?st Unnamed] i by blast
  with s e i a h show ?thesis by blast
qed

theorem host_echo_breaks_range:
  "knobsInRange (initializeKnobs knobEls newGui) \<and>
   paramListener ''satMixIn'' 2 (initializeKnobs knobEls newGui) =
     Returns (stateOf (paramListener ''satMixIn'' 2 (initializeKnobs knobEls newGui))) \<and>
   \<not> knobsInRange (stateOf (paramListener ''satMixIn'' 2 (initializeKnobs knobEls newGui)))"
proof -
  let ?st = "initializeKnobs knobEls newGui"
  let ?k = "\<lparr> currentValue = 1, targetValue = 1, kmin = 0, kmax = 1,
              isDragging = False, lastY = 0 \<rparr>"
  have i: "knobsInRange ?st"
    unfolding knobsInRange_def knobs_initial by (simp add: knobEls_def inRange_def)
  have m: "map_of (knobs ?st) ''satMixIn'' = Some ?k"
    unfolding knobs_initial by (simp add: knobEls_def)
  have p: "paramListener ''satMixIn'' 2 ?st =
      Returns (?st\<lparr> knobs := AList.update ''satMixIn''
                  (?k\<lparr> targetValue := 2, currentValue := 2 \<rparr>) (knobs ?st),
                currentThresholdDb :=
                  (if ''satMixIn'' = ''thresholdDbIn'' then 2 else currentThresholdDb ?st) \<rparr>)"
    using m by (rule paramListener_known)
  have "map_of (knobs (stateOf (paramListener ''satMixIn'' 2 ?st))) ''satMixIn'' =
      Some (?k\<lparr> targetValue := 2, currentValue := 2 \<rparr>)"
    by (simp add: p update_conv')
  moreover have "\<not> inRange (?k\<lparr> targetValue := 2, currentValue := 2 \<rparr>)"
    by (simp add: inRange_def)
  ultimately have n: "\<not> knobsInRange (stateOf (paramListener ''satMixIn'' 2 ?st))"
    using knobsInRange_lookup by metis
  have "paramListener ''satMixIn'' 2 ?st = Returns (stateOf (paramListener ''satMixIn'' 2 ?st))"
    by (simp add: p)
  with i n show ?thesis by blast
qed

text \<open>
  Claim C9. A gesture delta on a knob sets its target to the old target less
  \<open>deltaY * sensitivity * (max - min) / 100\<close>, clamped to the knob's bounds, so that a
  pointer moving up (a negative delta) does not lower the target; the current value of
  the knob, the other knobs and the list of values sent to the host are left as they were.
\<close>

theorem gesture_moves_target_only:
  "map_of (knobs st) p = Some k \<longrightarrow>
     (\<exists>st'. adjustKnobValue c p deltaY st = Inr st' \<and>
        map_of (knobs st') p =
          Some (k\<lparr> targetValue := max (kmin k) (min (kmax k)
                  (targetValue k - deltaY * sensitivity c * (kmax k - kmin k) / 100)) \<rparr>) \<and>
        (\<forall>k'. map_of (knobs st') p = Some k' \<longrightarrow> currentValue k' = currentValue k) \<and>
        (\<forall>q. q \<noteq> p \<longrightarrow> map_of (knobs st') q = map_of (knobs st) q) \<and>
        sent st' = sent st \<and>
        (inRange k \<and> deltaY \<le> 0 \<longrightarrow>
           (\<forall>k'. map_of (knobs st') p = Some k' \<longrightarrow> targetValue k \<le> targetValue k')))"
proof
  assume k: "map_of (knobs st) p = Some k"
  let ?t = "max (kmin k) (min (kmax k)
              (targetValue k - deltaY * sensitivity c * (kmax k - kmin k) / 100))"
  let ?st = "st\<lparr> knobs := AList.update p (k\<lparr> targetValue := ?t \<rparr>) (knobs st) \<rparr>"
  have r: "adjustKnobValue c p deltaY st = Inr ?st"
    using k by (simp add: adjustKnobValue_def Let_def)
  have l: "map_of (knobs ?st) p = Some (k\<lparr> targetValue := ?t \<rparr>)"
    by (simp add: update_conv')
  have o: "\<forall>q. q \<noteq> p \<longrightarrow> map_of (knobs ?st) q = map_of (knobs st) q"
    by (simp add: update_conv')
  have u: "targetValue k \<le> ?t" if "inRange k" "deltaY \<le> 0"
  proof -
    have "0 \<le> sensitivity c" by (cases c) (simp_all add: sensitivity_def)
    moreover have "0 \<le> kmax k - kmin k" using that(1) by (simp add: inRange_def)
    ultimately have "0 \<le> sensitivity c * (kmax k - kmin k)" by simp
    then have "deltaY * (sensitivity c * (kmax k - kmin k)) \<le> 0"
      using that(2) by (simp add: mult_nonpos_nonneg)
    then have "targetValue k \<le> targetValue k - deltaY * sensitivity c * (kmax k - kmin k) / 100"
      by (simp add: mult.assoc)
    then show ?thesis using that(1) by (simp add: inRange_def)
  qed
  show "\<exists>st'. adjustKnobValue c p deltaY st = Inr st' \<and>
        map_of (knobs st') p = Some (k\<lparr> targetValue := ?t \<rparr>) \<and>
        (\<forall>k'. map_of (knobs st') p = Some k' \<longrightarrow> currentValue k' = currentValue k) \<and>
        (\<forall>q. q \<noteq> p \<longrightarrow> map_of (knobs st') q = map_of (knobs st) q) \<and>
        sent st' = sent st \<and>
        (inRange k \<and> deltaY \<le> 0 \<longrightarrow>
           (\<forall>k'. map_of (knobs st') p = Some k' \<longrightarrow> targetValue k \<le> targetValue k'))"
    using r l o u by (intro exI [of _ ?st]) auto
qed

theorem gesture_moves_target_only_witness:
  "(\<exists>st'. adjustKnobValue WAM ''ratioIn'' (-10) (initializeKnobs knobEls newGui) = Inr st' \<and>
      map_of (knobs st') ''ratioIn'' =
        Some \<lparr> currentValue = 4, targetValue = 4.27, kmin = 1, kmax = 10,
               isDragging = False, lastY = 0 \<rparr> \<and>
      map_of (knobs st') ''drive'' = map_of (knobs (initializeKnobs knobEls newGui)) ''drive'' \<and>
      sent st' = [] \<and>
      (\<forall>k'. map_of (knobs st') ''ratioIn'' = Some k' \<longrightarrow> 4 \<le> targetValue k')) \<and>
   (\<exists>st'. adjustKnobValue Unnamed ''satMixIn'' (-50) (initializeKnobs knobEls newGui) = Inr st' \<and>
      map_of (knobs st') ''satMixIn'' =
        Some \<lparr> currentValue = 1, targetValue = 1, kmin = 0, kmax = 1,
               isDragging = False, lastY = 0 \<rparr>)"
proof -
  let ?st = "initializeKnobs knobEls newGui"
  let ?r = "\<lparr> currentValue = 4, targetValue = 4, kmin = 1, kmax = 10,
              isDragging = False, lastY = 0 \<rparr>"
  let ?m = "\<lparr> currentValue = 1, targetValue = 1, kmin = 0, kmax = 1,
              isDragging = False, lastY = 0 \<rparr>"
  have r: "map_of (knobs ?st) ''ratioIn'' = Some ?r"
    unfolding knobs_initial by (simp add: knobEls_def)
  have m: "map_of (knobs ?st) ''satMixIn'' = Some ?m"
    unfolding knobs_initial by (simp add: knobEls_def)
  have s: "sent ?st = []"
    by (simp add: initializeKnobs_def knobEls_def initKnob_def newGui_def)
  have a: "\<exists>st'. adjustKnobValue WAM ''ratioIn'' (-10) ?st = Inr st' \<and>
      map_of (knobs st') ''ratioIn'' = Some (?r\<lparr> targetValue := 4.27 \<rparr>) \<and>
      map_of (knobs st') ''drive'' = map_of (knobs ?st) ''drive'' \<and> sent st' = [] \<and>
      (\<forall>k'. map_of (knobs st') ''ratioIn'' = Some k' \<longrightarrow> 4 \<le> targetValue k')"
    using gesture_moves_target_only [of ?st "''ratioIn''" ?r WAM "-10"] r s
    by (auto simp add: sensitivity_def inRange_def)
  have b: "\<exists>st'. adjustKnobValue Unnamed ''satMixIn'' (-50) ?st = Inr st' \<and>
      map_of (knobs st') ''satMixIn'' = Some (?m\<lparr> targetValue := 1 \<rparr>)"
    using gesture_moves_target_only [of ?st "''satMixIn''" ?m Unnamed "-50"] m
    by (auto simp add: sensitivity_def)
  from a b show ?thesis by simp
qed

section \<open>Smoothing\<close>












section \<open>Waveform history\<close>

lemma historyPush_eq:
  "historyPush n s h = (if length h < n then h @ [s] else tl (h @ [s]))"
  by (simp add: historyPush_def Let_def)

lemma historyPush_drop:
  assumes "length h \<le> n"
  shows "historyPush n s h = drop (length (h @ [s]) - n) (h @ [s])"
proof (cases "length h < n")
  case True
  then show ?thesis by (simp add: historyPush_eq)
next
  case False
  with assms have "length h = n" by simp
  then have "length (h @ [s]) - n = Suc 0" by simp
  moreover have "drop (Suc 0) (h @ [s]) = tl (h @ [s])" by (simp only: drop_Suc drop_0)
  ultimately have "drop (length (h @ [s]) - n) (h @ [s]) = tl (h @ [s])" by (simp only:)
  then show ?thesis using False by (simp only: historyPush_eq if_False)
qed

lemma length_historyPush:
  "length h \<le> n \<Longrightarrow> length (historyPush n s h) \<le> n"
  by (cases h) (auto simp add: historyPush_eq)

lemma fold_historyPush:
  "length h \<le> n \<Longrightarrow>
   fold (historyPush n) xs h = drop (length (h @ xs) - n) (h @ xs)"
proof (induction xs rule: rev_induct)
  case Nil
  then show ?case by simp
next
  case (snoc x xs)
  define k where "k = length (h @ xs) - n"
  define d where "d = drop k (h @ xs)"
  have ih: "fold (historyPush n) xs h = d" using snoc by (simp add: d_def k_def)
  have ld: "length d \<le> n" by (simp add: d_def k_def)
  have e1: "d @ [x] = drop k (h @ xs @ [x])" by (simp add: d_def k_def)
  have e2: "length (d @ [x]) - n + k = length (h @ xs @ [x]) - n"
    by (simp add: d_def k_def)
  have "fold (historyPush n) (xs @ [x]) h = historyPush n x d"
    using ih by simp
  also have "\<dots> = drop (length (d @ [x]) - n) (d @ [x])"
    using ld by (rule historyPush_drop)
  also have "\<dots> = drop (length (d @ [x]) - n) (drop k (h @ xs @ [x]))"
    by (simp only: e1)
  also have "\<dots> = drop (length (d @ [x]) - n + k) (h @ xs @ [x])"
    by (simp only: drop_drop)
  also have "\<dots> = drop (length (h @ xs @ [x]) - n) (h @ xs @ [x])"
    by (simp only: e2)
  finally show ?case by simp
qed

lemma pushHistory_history:
  "frameCount st + 1 \<ge> historyUpdateRate st \<Longrightarrow>
   waveformHistory (pushHistory st) =
     historyPush (historyLength st) (currentSample st) (waveformHistory st)"
  by (simp add: pushHistory_def Let_def)

lemma animate_history:
  assumes "frameCount st + 1 \<ge> historyUpdateRate st"
  shows "waveformHistory (animate c st) =
    historyPush (historyLength st) (currentSample (animate c st)) (waveformHistory st)"
proof -
  let ?s = "smoothKnobs c (grDeadZone (decayPeaks (silenceFloor st)))"
  have "frameCount ?s + 1 \<ge> historyUpdateRate ?s"
    using assms by (simp add: smoothKnobs_def)
  then have "waveformHistory (pushHistory ?s) =
      historyPush (historyLength ?s) (currentSample ?s) (waveformHistory ?s)"
    by (rule pushHistory_history)
  moreover have "currentSample (animate c st) = currentSample ?s"
    by (simp add: currentSample_def animate_def)
  ultimately show ?thesis by (simp add: animate_def smoothKnobs_def)
qed

text \<open>
  Claim C8. A push appends the sample at the end and, when the length then exceeds the
  capacity, removes the element at index 0. Pushing \<open>N + 5\<close> samples into an empty history
  of capacity \<open>N\<close> leaves the last \<open>N\<close> of them, oldest first; the capacity set by the
  constructor is 30, and a tick whose frame count reaches the update rate pushes the
  sample of the meters' values of that tick.
\<close>

theorem history_keeps_last:
  "historyPush n s h = (if length (h @ [s]) > n then tl (h @ [s]) else h @ [s]) \<and>
   (length xs = n + 5 \<longrightarrow>
      fold (historyPush n) xs [] = drop 5 xs \<and>
      length (fold (historyPush n) xs []) = n) \<and>
   historyLength newGui = 30 \<and>
   (frameCount st + 1 \<ge> historyUpdateRate st \<longrightarrow>
      waveformHistory (animate c st) =
        historyPush (historyLength st) (currentSample (animate c st)) (waveformHistory st))"
proof (intro conjI impI)
  show "historyPush n s h = (if length (h @ [s]) > n then tl (h @ [s]) else h @ [s])"
    by (simp add: historyPush_def Let_def)
  show "historyLength newGui = 30" by (simp add: newGui_def)
next
  assume l: "length xs = n + 5"
  have "fold (historyPush n) xs [] = drop (length ([] @ xs) - n) ([] @ xs)"
    by (rule fold_historyPush) simp
  then show f: "fold (historyPush n) xs [] = drop 5 xs" using l by simp
  show "length (fold (historyPush n) xs []) = n" using f l by simp
next
  assume "frameCount st + 1 \<ge> historyUpdateRate st"
  then show "waveformHistory (animate c st) =
      historyPush (historyLength st) (currentSample (animate c st)) (waveformHistory st)"
    by (rule animate_history)
qed

theorem history_keeps_last_witness:
  "length [1, 2, 3, 4, 5, 6, 7 :: nat] = 2 + 5 \<and>
   fold (historyPush 2) [1, 2, 3, 4, 5, 6, 7 :: nat] [] = [6, 7] \<and>
   frameCount newGui + 1 \<ge> historyUpdateRate newGui \<and>
   waveformHistory (animate WAM newGui) =
     [\<lparr> sampleInputLevel = -36, sampleGainReduction = 0, sampleOutputLevel = -36 \<rparr>]"
proof -
  have l: "length [1, 2, 3, 4, 5, 6, 7 :: nat] = 2 + 5" by simp
  have f: "frameCount newGui + 1 \<ge> historyUpdateRate newGui" by (simp add: newGui_def)
  have "fold (historyPush 2) [1, 2, 3, 4, 5, 6, 7 :: nat] [] = drop 5 [1, 2, 3, 4, 5, 6, 7]"
    using history_keeps_last [of 2 0 "[]" "[1, 2, 3, 4, 5, 6, 7 :: nat]" newGui] l by blast
  then have a: "fold (historyPush 2) [1, 2, 3, 4, 5, 6, 7 :: nat] [] = [6, 7]"
    by (simp add: drop_Suc numeral_eq_Suc)
  have m: "meters (animate WAM newGui) = meters newGui"
    by (simp add: meters_animate grDeadZone_def decayPeaks_def silenceFloor_def Let_def
        newGui_def)
  have "waveformHistory (animate WAM newGui) =
      historyPush (historyLength newGui) (currentSample (animate WAM newGui))
        (waveformHistory newGui)"
    using history_keeps_last [of 2 0 "[]" "[1, 2, 3, 4, 5, 6, 7 :: nat]" newGui WAM] f
    by blast
  then have b: "waveformHistory (animate WAM newGui) =
      [\<lparr> sampleInputLevel = -36, sampleGainReduction = 0, sampleOutputLevel = -36 \<rparr>]"
    by (simp add: historyPush_def currentSample_def m) (simp add: newGui_def)
  from l a f b show ?thesis by blast
qed

section \<open>Meter dots\<close>

lemma lerpColor_off_red_0: "lerpColor offColor redColor 0 = ''rgb(51, 51, 51)''"
  by (simp add: lerpColor_def offColor_def redColor_def cubicEase_def js_round_def
      numString_def digitsOf.simps)









text \<open>
  A meter of a single dot is where the source divides by zero; the dot is then painted
  \<^verbatim>\<open>rgb(NaN, NaN, NaN)\<close>, unless it is the dot of a gain reduction held at zero.
\<close>

lemma single_dot_NaN:
  "meterDots ''inputLevel'' \<lparr> minDb = -36, maxDb = 6, ascending = True \<rparr> pk 1 =
     [\<lparr> background = ''rgb(NaN, NaN, NaN)'', active = False \<rparr>]"
  by (simp add: meterDots_def singleDot_def Let_def)

text \<open>
  Claim C10. For the gain-reduction meter the dot loop takes \<open>min 0\<close> of the meter value,
  and when that is at least -0.01 the intensity of every dot is 0: every dot is painted
  in the off colour and is not active. This is so for every peak that is not negative.
\<close>

theorem gain_reduction_dots_dark:
  "(\<not> ascending cfg \<and> min 0 meterValue \<ge> -0.01 \<longrightarrow>
      ledIntensity cfg meterValue dotDb dbStep = 0) \<and>
   (min 0 (readoutValue ''gainReduction'' (peak (gainReduction (meters st)))) \<ge> -0.01 \<longrightarrow>
      map_of (updateMeters dots st) ''gainReduction'' =
        Some (replicate (dots ''gainReduction'')
                \<lparr> background = ''rgb(51, 51, 51)'', active = False \<rparr>)) \<and>
   (0 \<le> peak (gainReduction (meters st)) \<longrightarrow>
      min 0 (readoutValue ''gainReduction'' (peak (gainReduction (meters st)))) \<ge> -0.01)"
proof (intro conjI impI)
  assume "\<not> ascending cfg \<and> min 0 meterValue \<ge> -0.01"
  then show "ledIntensity cfg meterValue dotDb dbStep = 0"
    by (simp add: ledIntensity_def Let_def)
next
  let ?pk = "peak (gainReduction (meters st))"
  let ?cfg = "\<lparr> minDb = 0, maxDb = -36, ascending = False \<rparr>"
  let ?n = "dots ''gainReduction''"
  assume a: "min 0 (readoutValue ''gainReduction'' ?pk) \<ge> -0.01"
  have i: "ledIntensity ?cfg (readoutValue ''gainReduction'' ?pk) d s = 0" for d s
    using a by (simp add: ledIntensity_def Let_def)
  have p: "paintDot ''gainReduction'' d 0 =
      \<lparr> background = ''rgb(51, 51, 51)'', active = False \<rparr>" for d
    by (simp add: paintDot_def activeColor_def lerpColor_off_red_0)
  have "meterDots ''gainReduction'' ?cfg ?pk ?n =
      replicate ?n \<lparr> background = ''rgb(51, 51, 51)'', active = False \<rparr>"
  proof (cases "?n = 1")
    case True
    then show ?thesis using a
      by (simp add: meterDots_def singleDot_def Let_def lerpColor_off_red_0)
  next
    case False
    then have "meterDots ''gainReduction'' ?cfg ?pk ?n =
        map (\<lambda>i. \<lparr> background = ''rgb(51, 51, 51)'', active = False \<rparr>) [0..<?n]"
      unfolding meterDots_def Let_def by (simp only: i p if_False)
    then show ?thesis by (simp add: map_replicate_const)
  qed
  then show "map_of (updateMeters dots st) ''gainReduction'' =
      Some (replicate ?n \<lparr> background = ''rgb(51, 51, 51)'', active = False \<rparr>)"
    by (simp add: updateMeters_def meterMap_def meterNamed_def)
next
  assume "0 \<le> peak (gainReduction (meters st))"
  then show "min 0 (readoutValue ''gainReduction'' (peak (gainReduction (meters st)))) \<ge> -0.01"
    by (simp add: readoutValue_def)
qed

theorem gain_reduction_dots_dark_witness:
  "map_of (updateMeters (\<lambda>_. 24) (animate WAM (gainReductionListener 6 newGui)))
      ''gainReduction'' =
     Some (replicate 24 \<lparr> background = ''rgb(51, 51, 51)'', active = False \<rparr>) \<and>
   peak (gainReduction (meters (animate WAM (gainReductionListener 6 newGui)))) = 6 \<and>
   ledIntensity \<lparr> minDb = 0, maxDb = -36, ascending = False \<rparr> (-0.005) (-3) (36 / 23) = 0"
proof -
  let ?st = "animate WAM (gainReductionListener 6 newGui)"
  let ?cfg = "\<lparr> minDb = 0, maxDb = -36, ascending = False \<rparr>"
  note t = gain_reduction_dots_dark [of ?cfg "-0.005" "-3" "36 / 23" ?st "\<lambda>_. 24"]
  have pk: "peak (gainReduction (meters ?st)) = 6"
    by (simp add: meters_animate grDeadZone_def decayPeaks_def silenceFloor_def Let_def
        gainReductionListener_def newGui_def)
  then have "0 \<le> peak (gainReduction (meters ?st))" by simp
  with t have "min 0 (readoutValue ''gainReduction'' (peak (gainReduction (meters ?st))))
      \<ge> -0.01"
    by blast
  with t have a: "map_of (updateMeters (\<lambda>_. 24) ?st) ''gainReduction'' =
      Some (replicate 24 \<lparr> background = ''rgb(51, 51, 51)'', active = False \<rparr>)"
    by blast
  have "\<not> ascending ?cfg \<and> min 0 (-0.005::real) \<ge> -0.01" by simp
  with t have b: "ledIntensity ?cfg (-0.005) (-3) (36 / 23) = 0" by blast
  from a pk b show ?thesis by blast
qed

end
